theory Spec2Isabelle
  imports Complex_Main "HOL-Library.Word" "HOL-Library.Option_ord"
begin

section \<open>Edge AI recyclable items classifier: the Streamlit page and its test scripts\<close>

text \<open>
  The repository is one Streamlit script (\<^verbatim>\<open>edge_AI_streamlit_app.py\<close>) and two test
  scripts (\<^verbatim>\<open>test_import.py\<close>, \<^verbatim>\<open>test_opencv_fallback.py\<close>). The script is
  modelled as a function from an environment (installed modules, the uploaded file, the
  image decoder) and a world (what the page shows, which files exist) to an outcome and a
  new world. Exceptions are values; confidences are rationals (the script only compares
  and displays them); the f-string formatting of a confidence is kept abstract, the
  displayed row carries the number itself.
\<close>

subsection \<open>Python values\<close>

type_synonym byte = "8 word"

text \<open>A raised exception: its class name and its message (\<^verbatim>\<open>str(e)\<close>).\<close>

datatype exn = Exn (cls: string) (msg: string)

subsection \<open>PIL images\<close>

text \<open>
  An image as PIL presents it: \<^verbatim>\<open>img.mode\<close>, \<^verbatim>\<open>img.size\<close> (width, height) and the
  pixel data, row by row, every pixel a list of 8-bit bands.
\<close>

record image =
  mode :: string
  width :: nat
  height :: nat
  pixels :: "byte list list list"

datatype resampling = NEAREST | BILINEAR | BICUBIC | LANCZOS

text \<open>\<^verbatim>\<open>Image.getbands()\<close>: the band names of a mode; a mode of one band that is
  not listed names its band after itself (1, L, P, I, F).\<close>

definition getbands :: "string \<Rightarrow> string list" where
  "getbands m =
     (if m = ''RGB'' then [''R'', ''G'', ''B'']
      else if m = ''RGBA'' then [''R'', ''G'', ''B'', ''A'']
      else if m = ''RGBX'' then [''R'', ''G'', ''B'', ''X'']
      else if m = ''CMYK'' then [''C'', ''M'', ''Y'', ''K'']
      else if m = ''YCbCr'' then [''Y'', ''Cb'', ''Cr'']
      else if m = ''LAB'' then [''L'', ''A'', ''B'']
      else if m = ''HSV'' then [''H'', ''S'', ''V'']
      else if m = ''LA'' then [''L'', ''A'']
      else if m = ''PA'' then [''P'', ''A'']
      else if m = ''La'' then [''L'', ''a'']
      else if m = ''RGBa'' then [''R'', ''G'', ''B'', ''a'']
      else if m \<in> set [''I;16'', ''I;16L'', ''I;16B'', ''I;16N''] then [''I'']
      else [m])"

text \<open>
  \<^verbatim>\<open>img.convert('RGB')\<close>: an image of the same size in mode RGB. The colour transform
  itself (palette lookup, dropping alpha, ...) is the parameter \<open>cv\<close>, which gives the
  red, green and blue value at a position of the source image.
\<close>

definition convert_RGB ::
  "(image \<Rightarrow> nat \<Rightarrow> nat \<Rightarrow> byte \<times> byte \<times> byte) \<Rightarrow> image \<Rightarrow> image" where
  "convert_RGB cv img =
     img\<lparr>mode := ''RGB'',
         pixels := map (\<lambda>y. map (\<lambda>x. case cv img x y of (r, g, b) \<Rightarrow> [r, g, b])
                                 [0..<width img]) [0..<height img]\<rparr>"

text \<open>
  \<^verbatim>\<open>img.resize((w, h), filter)\<close>: an image of exactly the requested size in the same
  mode, every band resampled on its own and clipped to 8 bits. The filter arithmetic is
  the parameter \<open>rs\<close>, which gives the value of band \<open>c\<close> at position \<open>(x, y)\<close>
  of the result.
\<close>

definition resize ::
  "(resampling \<Rightarrow> image \<Rightarrow> nat \<times> nat \<Rightarrow> nat \<Rightarrow> nat \<Rightarrow> nat \<Rightarrow> byte) \<Rightarrow>
   nat \<times> nat \<Rightarrow> resampling \<Rightarrow> image \<Rightarrow> image" where
  "resize rs sz flt img =
     img\<lparr>width := fst sz, height := snd sz,
         pixels := map (\<lambda>y. map (\<lambda>x. map (\<lambda>c. rs flt img sz x y c)
                                          [0..<length (getbands (mode img))])
                                 [0..<fst sz]) [0..<snd sz]\<rparr>"

subsection \<open>The preprocessing of the test scripts\<close>

text \<open>
  \<^verbatim>\<open>
  with Image.open(temp_path) as img:
      if img.mode != 'RGB':
          img = img.convert('RGB')
      img = img.resize((224, 224), Image.Resampling.LANCZOS)
      processed_image = np.array(img, dtype=np.float32) / 255.0
  processed_image = np.expand_dims(processed_image, axis=0)
  \<close>
  (\<^verbatim>\<open>test_import.py\<close> lines 86-93, \<^verbatim>\<open>test_opencv_fallback.py\<close> lines 47-57 and
  102-108). A tensor is the nested list batch, row, column, channel.
\<close>

type_synonym tensor = "rat list list list list"

definition ensure_RGB ::
  "(image \<Rightarrow> nat \<Rightarrow> nat \<Rightarrow> byte \<times> byte \<times> byte) \<Rightarrow> image \<Rightarrow> image" where
  "ensure_RGB cv img = (if mode img \<noteq> ''RGB'' then convert_RGB cv img else img)"

text \<open>
  \<^verbatim>\<open>np.array(img, dtype=np.float32) / 255.0\<close> divides in IEEE binary32: the result
  is the exact quotient rounded to the nearest number with a significand of 24 bits, ties
  to even. A channel value \<open>n > 0\<close> with \<open>255 \<le> n * 2 ^ k < 510\<close> has its
  quotient \<open>n / 255\<close> in the binade from \<open>2 ^ -k\<close> up to \<open>2 ^ (1 - k)\<close>, whose
  binary32 numbers are the multiples of \<open>2 ^ -(23 + k)\<close>. Numbers are kept as
  rationals, so the value is the binary32 result itself.
\<close>

definition round_half_even :: "rat \<Rightarrow> int" where
  "round_half_even x =
     (let f = \<lfloor>x\<rfloor>; r = x - of_int f
      in if r < 1 / 2 then f else if 1 / 2 < r then f + 1 else if even f then f else f + 1)"

function binade :: "nat \<Rightarrow> nat" where
  "binade n = (if n = 0 \<or> 255 \<le> n then 0 else Suc (binade (2 * n)))"
  by pat_completeness auto
termination
  by (relation "measure (\<lambda>n. 255 - n)") auto

declare binade.simps [simp del]

definition div255 :: "byte \<Rightarrow> rat" where
  "div255 b =
     (let n = unat b; k = binade n
      in of_int (round_half_even (of_nat n / 255 * 2 ^ (23 + k))) / 2 ^ (23 + k))"

definition np_array_div255 :: "image \<Rightarrow> rat list list list" where
  "np_array_div255 img = map (map (map div255)) (pixels img)"

definition expand_dims0 :: "'a \<Rightarrow> 'a list" where
  "expand_dims0 a = [a]"

text \<open>The block for a target size \<open>(w, h)\<close>; the scripts write the size (224, 224).\<close>

definition preprocess ::
  "(image \<Rightarrow> nat \<Rightarrow> nat \<Rightarrow> byte \<times> byte \<times> byte) \<Rightarrow>
   (resampling \<Rightarrow> image \<Rightarrow> nat \<times> nat \<Rightarrow> nat \<Rightarrow> nat \<Rightarrow> nat \<Rightarrow> byte) \<Rightarrow>
   nat \<times> nat \<Rightarrow> image \<Rightarrow> tensor" where
  "preprocess cv rs sz img =
     expand_dims0 (np_array_div255 (resize rs sz LANCZOS (ensure_RGB cv img)))"

definition processed_image ::
  "(image \<Rightarrow> nat \<Rightarrow> nat \<Rightarrow> byte \<times> byte \<times> byte) \<Rightarrow>
   (resampling \<Rightarrow> image \<Rightarrow> nat \<times> nat \<Rightarrow> nat \<Rightarrow> nat \<Rightarrow> nat \<Rightarrow> byte) \<Rightarrow> image \<Rightarrow> tensor" where
  "processed_image cv rs img = preprocess cv rs (224, 224) img"

text \<open>
  Decoding followed by the preprocessing. The parameter \<open>opn\<close> is \<^verbatim>\<open>Image.open\<close>
  together with the decoding of the pixel data, which PIL puts off until the first use
  (here the \<^verbatim>\<open>convert\<close> or the \<^verbatim>\<open>resize\<close>): it fails when either of them does.
\<close>

definition decode_preprocess ::
  "(byte list \<Rightarrow> exn + image) \<Rightarrow>
   (image \<Rightarrow> nat \<Rightarrow> nat \<Rightarrow> byte \<times> byte \<times> byte) \<Rightarrow>
   (resampling \<Rightarrow> image \<Rightarrow> nat \<times> nat \<Rightarrow> nat \<Rightarrow> nat \<Rightarrow> nat \<Rightarrow> byte) \<Rightarrow>
   byte list \<Rightarrow> exn + tensor" where
  "decode_preprocess opn cv rs bs =
     (case opn bs of Inl e \<Rightarrow> Inl e | Inr img \<Rightarrow> Inr (processed_image cv rs img))"

text \<open>The shape of a tensor, the range of its elements, and what it is to hold every
  channel value divided by 255 up to the rounding of binary32 (a relative error of at most
  \<open>2 ^ -24\<close>).\<close>

definition close_to_div255 :: "byte list list list \<Rightarrow> rat list list list \<Rightarrow> bool" where
  "close_to_div255 px a =
     list_all2 (list_all2 (list_all2
       (\<lambda>b v. \<bar>v - of_nat (unat b) / 255\<bar> \<le> of_nat (unat b) / 255 / 2 ^ 24))) px a"


definition has_shape :: "nat \<times> nat \<times> nat \<times> nat \<Rightarrow> tensor \<Rightarrow> bool" where
  "has_shape s t =
     (case s of (n, h, w, c) \<Rightarrow>
        length t = n \<and>
        list_all (\<lambda>plane. length plane = h \<and>
          list_all (\<lambda>row. length row = w \<and>
            list_all (\<lambda>px. length px = c) row) plane) t)"

definition in_unit_range :: "tensor \<Rightarrow> bool" where
  "in_unit_range t =
     list_all (list_all (list_all (list_all (\<lambda>v. 0 \<le> v \<and> v \<le> 1)))) t"

text \<open>A toy decoder for concrete runs: no bytes are no image, a leading byte 137 (the
  first byte of a PNG file) gives a one-pixel RGBA image, a leading byte 0 a one-pixel
  grayscale image, anything else a one-pixel RGB image. A file of the single byte 255 (the
  first byte of a JPEG file) stands for a truncated JPEG: it opens, and its data cannot be
  decoded.\<close>

definition toy_open :: "byte list \<Rightarrow> exn + image" where
  "toy_open bs =
     (case bs of
        [] \<Rightarrow> Inl (Exn ''UnidentifiedImageError'' ''cannot identify image file'')
      | b # _ \<Rightarrow>
          if b = 137 then Inr \<lparr>mode = ''RGBA'', width = 1, height = 1, pixels = [[[b, b, b, 255]]]\<rparr>
          else if b = 0 then Inr \<lparr>mode = ''L'', width = 1, height = 1, pixels = [[[b]]]\<rparr>
          else Inr \<lparr>mode = ''RGB'', width = 1, height = 1, pixels = [[[b, b, b]]]\<rparr>)"

definition toy_st_image :: "byte list \<Rightarrow> image \<Rightarrow> exn option" where
  "toy_st_image bs im =
     (if bs = [255] then Some (Exn ''OSError'' ''image file is truncated'') else None)"

definition toy_cv :: "image \<Rightarrow> nat \<Rightarrow> nat \<Rightarrow> byte \<times> byte \<times> byte" where
  "toy_cv img x y = (0, 0, 0)"

definition toy_rs :: "resampling \<Rightarrow> image \<Rightarrow> nat \<times> nat \<Rightarrow> nat \<Rightarrow> nat \<Rightarrow> nat \<Rightarrow> byte" where
  "toy_rs flt img sz x y c = 255"

subsection \<open>The page and the files\<close>

text \<open>
  What a run of the script puts on the page, call by call. Long literal texts (the CSS,
  the sidebar, the instructions) are abbreviated and emoji are left out. A displayed
  confidence carries the number; \<^verbatim>\<open>{confidence:.1%}\<close> only formats it.
\<close>

datatype ui_event =
    PageConfig string
  | Markdown string
  | Header string
  | Subheader string
  | Columns
  | FileUploader string
  | ImageShown image string
  | Info string
  | Spinner string
  | Write string rat
  | Progress rat
  | Success string rat
  | Error string

record world =
  ui :: "ui_event list"
  files :: "string set"

text \<open>
  The environment of a run: the modules that can be imported, what
  \<^verbatim>\<open>st.file_uploader\<close> returns (the bytes of an accepted file, or nothing),
  \<^verbatim>\<open>Image.open\<close>, the exception that \<^verbatim>\<open>st.image\<close> raises for an opened upload if
  it raises one, the fresh name \<^verbatim>\<open>NamedTemporaryFile\<close> picks, and the lines of
  \<^verbatim>\<open>class_names.txt\<close>, which the page lists under its required files (line 157) and
  which no line of the script opens.

  \<^verbatim>\<open>Image.open\<close> is lazy: it reads the header of the file and fails on bytes that are
  no image file; the pixel data are decoded at the first use, which in the script is
  \<^verbatim>\<open>st.image\<close> (line 83). That call therefore fails on a file whose data are
  truncated or damaged, and on a mode that Streamlit cannot display; the pixels of the
  opened image are the data that the decoding yields when it succeeds.
\<close>

record env =
  installed :: "string list"
  uploaded_file :: "byte list option"
  Image_open :: "byte list \<Rightarrow> exn + image"
  st_image :: "byte list \<Rightarrow> image \<Rightarrow> exn option"
  tmp_name :: string
  class_names_txt :: "string list"

definition st :: "ui_event \<Rightarrow> world \<Rightarrow> world" where
  "st ev w = w\<lparr>ui := ui w @ [ev]\<rparr>"

subsection \<open>Imports\<close>

text \<open>An import of a module that is not installed raises ModuleNotFoundError, a subclass
  of ImportError (the message is kept without its quotation marks).\<close>

definition py_import :: "env \<Rightarrow> string \<Rightarrow> exn + unit" where
  "py_import env m =
     (if m \<in> set (installed env) then Inr ()
      else Inl (Exn ''ModuleNotFoundError'' (''No module named '' @ m)))"

fun py_imports :: "env \<Rightarrow> string list \<Rightarrow> exn + unit" where
  "py_imports env [] = Inr ()"
| "py_imports env (m # ms) =
     (case py_import env m of Inl e \<Rightarrow> Inl e | Inr _ \<Rightarrow> py_imports env ms)"

text \<open>Lines 1-7 of the page: seven plain imports, none of them guarded.\<close>

definition app_imports :: "string list" where
  "app_imports = [''streamlit'', ''tensorflow'', ''numpy'', ''cv2'', ''PIL'', ''tempfile'', ''os'']"

text \<open>
  \<^verbatim>\<open>test_opencv_import_handling\<close> (\<^verbatim>\<open>test_opencv_fallback.py\<close> lines 9-24): the
  import of cv2 inside \<^verbatim>\<open>try ... except ImportError\<close>; the function returns
  \<^verbatim>\<open>OPENCV_AVAILABLE\<close> and never raises.
\<close>

definition test_opencv_import_handling :: "env \<Rightarrow> bool" where
  "test_opencv_import_handling env =
     (case py_import env ''cv2'' of Inl e \<Rightarrow> False | Inr _ \<Rightarrow> True)"

subsection \<open>The upload (lines 70-91)\<close>

text \<open>
  \<^verbatim>\<open>NamedTemporaryFile(delete=False, suffix='.jpg')\<close> creates the file and leaves it on
  disk when the \<^verbatim>\<open>with\<close> block ends, normally or by an exception.
\<close>

definition NamedTemporaryFile :: "string \<Rightarrow> world \<Rightarrow> world" where
  "NamedTemporaryFile name w = w\<lparr>files := insert name (files w)\<rparr>"

text \<open>
  \<^verbatim>\<open>image.save(tmp_file.name)\<close>: the suffix .jpg selects PIL's JPEG writer, which
  writes the modes 1, L, RGB, RGBX, CMYK and YCbCr and raises
  \<^verbatim>\<open>OSError("cannot write mode ... as JPEG")\<close> for any other; the file, which was
  there before the call, stays.
\<close>

definition save_jpeg :: "image \<Rightarrow> string \<Rightarrow> world \<Rightarrow> (exn + unit) \<times> world" where
  "save_jpeg img path w =
     (if mode img \<in> set [''1'', ''L'', ''RGB'', ''RGBX'', ''CMYK'', ''YCbCr'']
      then (Inr (), w\<lparr>files := insert path (files w)\<rparr>)
      else (Inl (Exn ''OSError'' (''cannot write mode '' @ mode img @ '' as JPEG'')), w))"

definition upload_section :: "env \<Rightarrow> world \<Rightarrow> (exn + string option) \<times> world" where
  "upload_section env w0 =
     (let w1 = st (FileUploader ''Choose an image of a recyclable item'')
                 (st (Header ''Upload Image'') w0)
      in case uploaded_file env of
           None \<Rightarrow> (Inr None, st (Info ''Please upload an image to classify.'') w1)
         | Some bs \<Rightarrow>
             (case Image_open env bs of
                Inl e \<Rightarrow> (Inl e, w1)
              | Inr im \<Rightarrow>
                  (case st_image env bs im of
                     Some e \<Rightarrow> (Inl e, w1)
                   | None \<Rightarrow>
                       (let w2 = st (ImageShown im ''Uploaded Image'') w1;
                            w3 = NamedTemporaryFile (tmp_name env) w2
                        in case save_jpeg im (tmp_name env) w3 of
                             (Inl e, w4) \<Rightarrow> (Inl e, w4)
                           | (Inr _, w4) \<Rightarrow> (Inr (Some (tmp_name env)), w4)))))"

subsection \<open>The classification block (lines 93-139)\<close>

text \<open>The mock results (lines 113-118): a dict, here the list of its items in insertion
  order.\<close>

definition predictions :: "(string \<times> rat) list" where
  "predictions =
     [(''Plastic Bottle'', 85 / 100), (''Aluminum Can'', 10 / 100),
      (''Paper'', 3 / 100), (''Glass'', 2 / 100)]"

text \<open>\<^verbatim>\<open>st.progress(value)\<close> with a float: Streamlit raises unless 0.0 <= value <= 1.0.
  The class and the text of that exception differ between releases of Streamlit; the ones
  written here are those of the releases that raise StreamlitAPIException itself.\<close>

definition st_progress :: "rat \<Rightarrow> world \<Rightarrow> (exn + unit) \<times> world" where
  "st_progress v w =
     (if 0 \<le> v \<and> v \<le> 1 then (Inr (), st (Progress v) w)
      else (Inl (Exn ''StreamlitAPIException'' ''Progress Value has invalid value [0.0, 1.0]''), w))"

text \<open>
  \<^verbatim>\<open>
  for item, confidence in predictions.items():
      st.write(f"**{item}**: {confidence:.1%}")
      st.progress(confidence)
  \<close>
\<close>

fun display_predictions :: "(string \<times> rat) list \<Rightarrow> world \<Rightarrow> (exn + unit) \<times> world" where
  "display_predictions [] w = (Inr (), w)"
| "display_predictions ((item, confidence) # rest) w =
     (case st_progress confidence (st (Write item confidence) w) of
        (Inl e, w') \<Rightarrow> (Inl e, w')
      | (Inr _, w') \<Rightarrow> display_predictions rest w')"

text \<open>
  Python's \<^verbatim>\<open>max(iterable, key=f)\<close>: the first element whose key no later element
  exceeds (the running best is replaced only by a strictly greater key); ValueError on
  an empty iterable.
\<close>

fun py_max :: "('a \<Rightarrow> 'k::linorder) \<Rightarrow> 'a list \<Rightarrow> exn + 'a" where
  "py_max key [] = Inl (Exn ''ValueError'' ''max() arg is an empty sequence'')"
| "py_max key (x # xs) = Inr (foldl (\<lambda>best y. if key best < key y then y else best) x xs)"

text \<open>\<^verbatim>\<open>top_prediction = max(predictions, key=predictions.get)\<close>: iterating a dict
  gives its keys in insertion order, \<^verbatim>\<open>predictions.get\<close> is the lookup.\<close>

definition top_prediction :: "(string \<times> rat) list \<Rightarrow> exn + string" where
  "top_prediction preds = py_max (map_of preds) (map fst preds)"

definition classify_block :: "env \<Rightarrow> (string \<times> rat) list \<Rightarrow> world \<Rightarrow> (exn + unit) \<times> world" where
  "classify_block env preds w0 =
     (let w1 = st (Spinner ''Classifying...'')
                 (st (Info ''Loading model and processing image...'') w0)
      in case py_import env ''time'' of
           Inl e \<Rightarrow> (Inl e, w1)
         | Inr _ \<Rightarrow>
             (let w2 = st (Subheader ''Classification Results'')
                         (st (Markdown ''<div class=result-card>'') w1)
              in case display_predictions preds w2 of
                   (Inl e, w3) \<Rightarrow> (Inl e, w3)
                 | (Inr _, w3) \<Rightarrow>
                     (case top_prediction preds of
                        Inl e \<Rightarrow> (Inl e, w3)
                      | Inr tp \<Rightarrow>
                          (case map_of preds tp of
                             None \<Rightarrow> (Inl (Exn ''KeyError'' tp), w3)
                           | Some c \<Rightarrow>
                               (Inr (), st (Markdown ''</div>'') (st (Success tp c) w3))))))"

text \<open>
  \<^verbatim>\<open>
  try:
      ...
  except Exception as e:
      st.error(f"Error during classification: {str(e)}")
      st.info("Make sure you have a trained TFLite model in the correct location.")
  \<close>
  The handler shows two messages and the script goes on; nothing is raised again.
\<close>

definition try_classify :: "env \<Rightarrow> (string \<times> rat) list \<Rightarrow> world \<Rightarrow> world" where
  "try_classify env preds w =
     (case classify_block env preds w of
        (Inl e, w') \<Rightarrow>
          st (Info ''Make sure you have a trained TFLite model in the correct location.'')
            (st (Error (''Error during classification: '' @ msg e)) w')
      | (Inr _, w') \<Rightarrow> w')"

text \<open>\<^verbatim>\<open>if temp_image_path:\<close> is false for None and for the empty string.\<close>

definition truthy :: "string option \<Rightarrow> bool" where
  "truthy p = (case p of None \<Rightarrow> False | Some s \<Rightarrow> s \<noteq> [])"

definition results_section :: "env \<Rightarrow> string option \<Rightarrow> world \<Rightarrow> world" where
  "results_section env temp_image_path w0 =
     (let w1 = st (Header ''Classification Results'') w0
      in if truthy temp_image_path then try_classify env predictions w1
         else st (Info ''Upload an image to see classification results.'') w1)"

subsection \<open>The whole script\<close>

definition page_top :: "world \<Rightarrow> world" where
  "page_top w =
     st Columns
       (st (Markdown ''Model Information ...'')
         (st (Header ''Model Information'')
           (st (Markdown ''---'')
             (st (Markdown ''<h1>Edge AI Recyclable Items Classifier</h1>'')
               (st (Markdown ''<style> ... </style>'')
                 (st (PageConfig ''Edge AI Recyclable Items Classifier'') w))))))"

definition page_footer :: "world \<Rightarrow> world" where
  "page_footer w =
     st (Markdown ''1. Upload Image ... 4. Add proper image preprocessing'')
       (st (Markdown ''### Instructions'')
         (st (Markdown ''---'') w))"

text \<open>
  \<^verbatim>\<open>
  if temp_image_path and os.path.exists(temp_image_path):
      os.unlink(temp_image_path)
  \<close>
  (lines 168-170, the last statement of the script).
\<close>

definition cleanup :: "string option \<Rightarrow> world \<Rightarrow> world" where
  "cleanup temp_image_path w =
     (case temp_image_path of
        None \<Rightarrow> w
      | Some p \<Rightarrow> if p \<noteq> [] \<and> p \<in> files w then w\<lparr>files := files w - {p}\<rparr> else w)"

text \<open>
  One run of the script. An exception that no handler catches ends the run there: the
  outcome is \<open>Inl\<close> of it and the world is as the run left it.
\<close>

definition app :: "env \<Rightarrow> world \<Rightarrow> (exn + unit) \<times> world" where
  "app env w0 =
     (case py_imports env app_imports of
        Inl e \<Rightarrow> (Inl e, w0)
      | Inr _ \<Rightarrow>
          (case upload_section env (page_top w0) of
             (Inl e, w1) \<Rightarrow> (Inl e, w1)
           | (Inr temp_image_path, w1) \<Rightarrow>
               (Inr (), cleanup temp_image_path
                          (page_footer (results_section env temp_image_path w1)))))"

text \<open>What a page shows of a classification: its rows, and its top entry.\<close>

fun written :: "ui_event list \<Rightarrow> (string \<times> rat) list" where
  "written [] = []"
| "written (Write item c # evs) = (item, c) # written evs"
| "written (ev # evs) = written evs"

fun most_likely :: "ui_event list \<Rightarrow> (string \<times> rat) list" where
  "most_likely [] = []"
| "most_likely (Success item c # evs) = (item, c) # most_likely evs"
| "most_likely (ev # evs) = most_likely evs"

fun errors_shown :: "ui_event list \<Rightarrow> string list" where
  "errors_shown [] = []"
| "errors_shown (Error m # evs) = m # errors_shown evs"
| "errors_shown (ev # evs) = errors_shown evs"

text \<open>
  The ranking in the specification's words, for comparison with the script: class
  indices sorted by descending confidence, ties broken by ascending index (the sort is
  stable), the top entry the first element of the sorted sequence.
\<close>

definition spec_rank :: "(string \<times> rat) list \<Rightarrow> (string \<times> rat) list" where
  "spec_rank preds = sort_key (\<lambda>p. - snd p) preds"

text \<open>Environments for concrete runs.\<close>

definition all_modules :: "string list" where
  "all_modules = [''streamlit'', ''tensorflow'', ''numpy'', ''cv2'', ''PIL'', ''tempfile'', ''os'', ''time'']"

definition toy_env :: "byte list option \<Rightarrow> env" where
  "toy_env up =
     \<lparr>installed = all_modules, uploaded_file = up, Image_open = toy_open,
      st_image = toy_st_image, tmp_name = ''/tmp/tmpabc.jpg'',
      class_names_txt = [''Plastic Bottle'', ''Aluminum Can'', ''Paper'']\<rparr>"

definition empty_world :: world where
  "empty_world = \<lparr>ui = [], files = {}\<rparr>"

text \<open>
  The runs that reach the classification of line 113: the imports of lines 1-7 and the
  \<^verbatim>\<open>import time\<close> of line 109 succeed, and the upload section ends without an
  exception and with a \<^verbatim>\<open>temp_image_path\<close> that is true.
\<close>

definition reaches_classification :: "env \<Rightarrow> world \<Rightarrow> bool" where
  "reaches_classification env w =
     (py_imports env (app_imports @ [''time'']) = Inr () \<and>
      (case upload_section env (page_top w) of
         (Inl e, w1) \<Rightarrow> False
       | (Inr temp_image_path, w1) \<Rightarrow> truthy temp_image_path))"

text \<open>An installation without OpenCV; everything else is there.\<close>

definition no_cv2_env :: env where
  "no_cv2_env = (toy_env (Some [1]))\<lparr>installed :=
     [''streamlit'', ''tensorflow'', ''numpy'', ''PIL'', ''tempfile'', ''os'', ''time'']\<rparr>"

section \<open>Preprocessing: shape and range\<close>

lemma mode_ensure_RGB: "mode (ensure_RGB cv img) = ''RGB''"
  by (simp add: ensure_RGB_def convert_RGB_def)

lemma binade_bounds: "0 < n \<Longrightarrow> n \<le> 255 \<Longrightarrow> 255 \<le> n * 2 ^ binade n \<and> n * 2 ^ binade n < 510"
proof (induction n rule: binade.induct)
  case (1 n)
  show ?case
  proof (cases "255 \<le> n")
    case True
    with "1.prems" show ?thesis by (simp add: binade.simps)
  next
    case False
    with "1.prems" have "255 \<le> (2 * n) * 2 ^ binade (2 * n) \<and> (2 * n) * 2 ^ binade (2 * n) < 510"
    proof (cases "2 * n \<le> 255")
      case True
      with "1.IH" "1.prems" False show ?thesis by simp
    next
      case F: False
      then have "binade (2 * n) = 0" by (simp add: binade.simps)
      with F False show ?thesis by simp
    qed
    with False "1.prems" show ?thesis by (simp add: binade.simps [of n] mult.assoc)
  qed
qed

lemma round_half_even_close: "\<bar>of_int (round_half_even x) - x\<bar> \<le> 1 / 2"
proof -
  have a: "of_int \<lfloor>x\<rfloor> \<le> x" and b: "x < of_int \<lfloor>x\<rfloor> + 1" by linarith+
  show ?thesis
    unfolding round_half_even_def Let_def using a b by (simp add: abs_le_iff)
qed

lemma round_half_even_le: "x \<le> of_int m \<Longrightarrow> round_half_even x \<le> m"
proof -
  assume le: "x \<le> of_int m"
  have f: "\<lfloor>x\<rfloor> \<le> m" using le by (simp add: floor_le_iff)
  show ?thesis
  proof (cases "\<lfloor>x\<rfloor> = m")
    case True
    then have "x - of_int \<lfloor>x\<rfloor> \<le> 0" using le by simp
    then show ?thesis unfolding round_half_even_def Let_def using True by simp
  next
    case False
    with f have "\<lfloor>x\<rfloor> + 1 \<le> m" by simp
    with f show ?thesis unfolding round_half_even_def Let_def by simp
  qed
qed

lemma round_half_even_nonneg: "0 \<le> x \<Longrightarrow> 0 \<le> round_half_even x"
  unfolding round_half_even_def Let_def by simp

lemma unat_byte_le: "unat (b :: byte) \<le> 255"
proof -
  have "unat b < 2 ^ LENGTH(8)" by (rule unsigned_less)
  then show ?thesis by simp
qed

lemma div255_range: "0 \<le> div255 b \<and> div255 b \<le> 1"
proof -
  define n where "n = unat b"
  define k where "k = binade n"
  define X :: rat where "X = of_nat n / 255 * 2 ^ (23 + k)"
  have v: "div255 b = of_int (round_half_even X) / 2 ^ (23 + k)"
    by (simp add: div255_def n_def k_def X_def Let_def)
  have n: "n \<le> 255" unfolding n_def by (rule unat_byte_le)
  have X0: "0 \<le> X" unfolding X_def by simp
  have "(of_nat n :: rat) \<le> 255" using n by (metis of_nat_le_iff of_nat_numeral)
  then have "of_nat n / 255 \<le> (1 :: rat)" by simp
  then have "X \<le> 1 * 2 ^ (23 + k)" unfolding X_def by (intro mult_right_mono) simp_all
  then have "X \<le> of_int (2 ^ (23 + k))" by simp
  then have "round_half_even X \<le> 2 ^ (23 + k)" by (rule round_half_even_le)
  then have "(of_int (round_half_even X) :: rat) \<le> of_int (2 ^ (23 + k))"
    by (simp only: of_int_le_iff)
  then have up: "div255 b \<le> 1" unfolding v by (simp add: divide_le_eq_1)
  have "0 \<le> round_half_even X" using X0 by (rule round_half_even_nonneg)
  then have "0 \<le> div255 b" unfolding v by simp
  with up show ?thesis by simp
qed

lemma div255_close: "\<bar>div255 b - of_nat (unat b) / 255\<bar> \<le> of_nat (unat b) / 255 / 2 ^ 24"
proof -
  define n where "n = unat b"
  define k where "k = binade n"
  define q :: rat where "q = of_nat n / 255"
  define X :: rat where "X = q * 2 ^ (23 + k)"
  have v: "div255 b = of_int (round_half_even X) / 2 ^ (23 + k)"
    by (simp add: div255_def n_def k_def X_def q_def Let_def)
  have n: "n \<le> 255" unfolding n_def by (rule unat_byte_le)
  show ?thesis
  proof (cases "n = 0")
    case True
    then have "binade n = 0" by (simp add: binade.simps)
    with True show ?thesis
      unfolding v X_def q_def k_def n_def [symmetric] by (simp add: round_half_even_def)
  next
    case False
    then have "255 \<le> n * 2 ^ k" unfolding k_def using n binade_bounds [of n] by simp
    then have "(of_nat 255 :: rat) \<le> of_nat (n * 2 ^ k)" by (simp only: of_nat_le_iff)
    then have "(255 :: rat) \<le> of_nat n * 2 ^ k" by simp
    then have qk: "1 \<le> q * 2 ^ k" unfolding q_def by simp
    have "div255 b - q = (of_int (round_half_even X) - X) / 2 ^ (23 + k)"
      unfolding v X_def by (simp add: field_simps)
    then have "\<bar>div255 b - q\<bar> = \<bar>of_int (round_half_even X) - X\<bar> / 2 ^ (23 + k)"
      by (simp add: abs_divide)
    also have "\<dots> \<le> (1 / 2) / 2 ^ (23 + k)"
      by (intro divide_right_mono round_half_even_close) simp
    also have "\<dots> = 1 / (2 ^ 24 * 2 ^ k)" by (simp add: power_add)
    also have "\<dots> \<le> (q * 2 ^ k) / (2 ^ 24 * 2 ^ k)"
      by (intro divide_right_mono qk) simp
    also have "\<dots> = q / 2 ^ 24" by simp
    finally show ?thesis unfolding q_def n_def .
  qed
qed

lemma div255_examples:
  "div255 0 = 0 \<and> div255 255 = 1 \<and> div255 128 = 8421505 / 16777216 \<and>
   div255 1 = 8421505 / 2147483648"
  by code_simp

lemma in_unit_range_preprocess: "in_unit_range (preprocess cv rs sz img)"
  by (simp add: in_unit_range_def preprocess_def expand_dims0_def np_array_div255_def
      list_all_iff div255_range)

lemma has_shape_preprocess: "has_shape (1, snd sz, fst sz, 3) (preprocess cv rs sz img)"
  by (simp add: has_shape_def preprocess_def expand_dims0_def np_array_div255_def
      resize_def mode_ensure_RGB getbands_def list_all_iff)

lemma close_to_div255_map: "close_to_div255 px (map (map (map div255)) px)"
  unfolding close_to_div255_def list_all2_map2 list_all2_same
  using div255_close by blast

lemma preprocess_elements:
  "preprocess cv rs sz img =
     [map (map (map div255)) (pixels (resize rs sz LANCZOS (ensure_RGB cv img)))]"
  by (simp add: preprocess_def expand_dims0_def np_array_div255_def)

text \<open>
  C4. For all image bytes that decode, decoding followed by preprocessing yields a tensor
  of shape (1, 224, 224, 3), the target size of the scripts: the RGB image resized to the
  target size with the Lanczos filter, under a batch dimension of 1, every element the
  channel value divided by 255 (in binary32: within a relative error of \<open>2 ^ -24\<close> of
  the exact quotient), and every element of the tensor in [0, 1]. The same holds of the
  block for any target size \<open>(w, h)\<close>, with the shape (1, h, w, 3).
\<close>

theorem decode_preprocess_shape_range:
  assumes "decode_preprocess opn cv rs bs = Inr t"
  shows "has_shape (1, 224, 224, 3) t \<and> in_unit_range t \<and>
         (\<exists>img a. opn bs = Inr img \<and> t = [a] \<and>
            a = map (map (map div255))
                  (pixels (resize rs (224, 224) LANCZOS (ensure_RGB cv img))) \<and>
            close_to_div255 (pixels (resize rs (224, 224) LANCZOS (ensure_RGB cv img))) a) \<and>
         has_shape (1, snd sz, fst sz, 3) (preprocess cv rs sz im) \<and>
         in_unit_range (preprocess cv rs sz im) \<and>
         (\<exists>a. preprocess cv rs sz im = [a] \<and>
            close_to_div255 (pixels (resize rs sz LANCZOS (ensure_RGB cv im))) a)"
proof -
  from assms obtain img where img: "opn bs = Inr img" and t: "t = processed_image cv rs img"
    by (auto simp: decode_preprocess_def split: sum.splits)
  have p: "t = preprocess cv rs (224, 224) img"
    by (simp add: t processed_image_def)
  have s: "has_shape (1, 224, 224, 3) t"
    unfolding p using has_shape_preprocess [of "(224, 224)" cv rs img] by simp
  have r: "in_unit_range t"
    unfolding p by (rule in_unit_range_preprocess)
  have e: "\<exists>img a. opn bs = Inr img \<and> t = [a] \<and>
            a = map (map (map div255))
                  (pixels (resize rs (224, 224) LANCZOS (ensure_RGB cv img))) \<and>
            close_to_div255 (pixels (resize rs (224, 224) LANCZOS (ensure_RGB cv img))) a"
    using img p preprocess_elements [of cv rs "(224, 224)" img]
      close_to_div255_map [of "pixels (resize rs (224, 224) LANCZOS (ensure_RGB cv img))"]
    by auto
  have g: "\<exists>a. preprocess cv rs sz im = [a] \<and>
            close_to_div255 (pixels (resize rs sz LANCZOS (ensure_RGB cv im))) a"
    using preprocess_elements [of cv rs sz im]
      close_to_div255_map [of "pixels (resize rs sz LANCZOS (ensure_RGB cv im))"]
    by auto
  from s r e g has_shape_preprocess [of sz cv rs im] in_unit_range_preprocess [of cv rs sz im]
  show ?thesis by blast
qed

text \<open>The witness of C4: a one-pixel RGBA image.\<close>

theorem decode_preprocess_shape_range_witness:
  "decode_preprocess toy_open toy_cv toy_rs [137] = Inr (processed_image toy_cv toy_rs
      \<lparr>mode = ''RGBA'', width = 1, height = 1, pixels = [[[137, 137, 137, 255]]]\<rparr>) \<and>
   has_shape (1, 224, 224, 3) (processed_image toy_cv toy_rs
      \<lparr>mode = ''RGBA'', width = 1, height = 1, pixels = [[[137, 137, 137, 255]]]\<rparr>) \<and>
   in_unit_range (processed_image toy_cv toy_rs
      \<lparr>mode = ''RGBA'', width = 1, height = 1, pixels = [[[137, 137, 137, 255]]]\<rparr>)"
proof -
  have d: "decode_preprocess toy_open toy_cv toy_rs [137] = Inr (processed_image toy_cv toy_rs
      \<lparr>mode = ''RGBA'', width = 1, height = 1, pixels = [[[137, 137, 137, 255]]]\<rparr>)"
    by (simp add: decode_preprocess_def toy_open_def)
  from decode_preprocess_shape_range [OF d] d show ?thesis by blast
qed

section \<open>The page: helper facts\<close>

lemmas run_defs =
  app_def toy_env_def all_modules_def app_imports_def py_import_def upload_section_def
  toy_open_def toy_st_image_def save_jpeg_def NamedTemporaryFile_def st_def page_top_def page_footer_def
  empty_world_def results_section_def try_classify_def classify_block_def truthy_def
  cleanup_def predictions_def st_progress_def top_prediction_def

lemma py_imports_ok_iff: "py_imports env ms = Inr () \<longleftrightarrow> set ms \<subseteq> set (installed env)"
  by (induction ms) (auto simp: py_import_def)

lemma display_predictions_mock:
  "display_predictions predictions w =
     (Inr (), w\<lparr>ui := ui w @
        [Write ''Plastic Bottle'' (85 / 100), Progress (85 / 100),
         Write ''Aluminum Can'' (10 / 100), Progress (10 / 100),
         Write ''Paper'' (3 / 100), Progress (3 / 100),
         Write ''Glass'' (2 / 100), Progress (2 / 100)]\<rparr>)"
  by (simp add: predictions_def st_progress_def st_def)

lemma top_prediction_mock: "top_prediction predictions = Inr ''Plastic Bottle''"
  by (simp add: top_prediction_def predictions_def)

lemma spec_rank_mock: "spec_rank predictions = predictions"
  by (simp add: spec_rank_def predictions_def)

lemma written_append: "written (xs @ ys) = written xs @ written ys"
  by (induction xs rule: written.induct) simp_all

lemma most_likely_append: "most_likely (xs @ ys) = most_likely xs @ most_likely ys"
  by (induction xs rule: most_likely.induct) simp_all

lemma errors_shown_append: "errors_shown (xs @ ys) = errors_shown xs @ errors_shown ys"
  by (induction xs rule: errors_shown.induct) simp_all

lemma display_predictions_in_range:
  "list_all (\<lambda>p. 0 \<le> snd p \<and> snd p \<le> 1) preds \<Longrightarrow>
   display_predictions preds w =
     (Inr (), w\<lparr>ui := ui w @ concat (map (\<lambda>p. [Write (fst p) (snd p), Progress (snd p)]) preds)\<rparr>)"
proof (induction preds arbitrary: w)
  case Nil
  then show ?case by simp
next
  case (Cons p preds)
  obtain item c where p: "p = (item, c)" by (cases p)
  from Cons.prems have c: "0 \<le> c" "c \<le> 1" and rest: "list_all (\<lambda>p. 0 \<le> snd p \<and> snd p \<le> 1) preds"
    by (simp_all add: p)
  show ?case
    by (simp add: p c st_progress_def st_def Cons.IH [OF rest])
qed

lemma written_rows: "written (concat (map (\<lambda>p. [Write (fst p) (snd p), Progress (snd p)]) preds)) = preds"
  by (induction preds) simp_all

lemma display_predictions_prefix:
  "\<exists>k. k \<le> length preds \<and>
       written (ui (snd (display_predictions preds w))) = written (ui w) @ take k preds"
proof (induction preds arbitrary: w)
  case Nil
  then show ?case by simp
next
  case (Cons p preds)
  obtain item c where p: "p = (item, c)" by (cases p)
  show ?case
  proof (cases "0 \<le> c \<and> c \<le> 1")
    case True
    from Cons.IH [of "st (Progress c) (st (Write item c) w)"]
    obtain k where k: "k \<le> length preds"
      "written (ui (snd (display_predictions preds (st (Progress c) (st (Write item c) w))))) =
         written (ui (st (Progress c) (st (Write item c) w))) @ take k preds"
      by blast
    have "Suc k \<le> length (p # preds) \<and>
       written (ui (snd (display_predictions (p # preds) w))) = written (ui w) @ take (Suc k) (p # preds)"
      using True k by (simp add: p st_progress_def st_def written_append)
    then show ?thesis by blast
  next
    case False
    then have "Suc 0 \<le> length (p # preds) \<and>
       written (ui (snd (display_predictions (p # preds) w))) = written (ui w) @ take (Suc 0) (p # preds)"
      by (auto simp add: p st_progress_def st_def written_append)
    then show ?thesis by blast
  qed
qed

lemma hd_insort_key:
  "hd (insort_key f x ys) = (if ys = [] \<or> f x \<le> f (hd ys) then x else hd ys)"
  by (cases ys) simp_all

lemma sort_key_Nil_iff: "sort_key f xs = [] \<longleftrightarrow> xs = []"
  by (metis length_0_conv length_sort)

lemma hd_sort_key_Cons:
  "hd (sort_key f (x # xs)) =
     (if xs = [] \<or> f x \<le> f (hd (sort_key f xs)) then x else hd (sort_key f xs))"
  by (simp add: hd_insort_key sort_key_Nil_iff)

lemma foldl_first_max:
  fixes key :: "'a \<Rightarrow> rat"
  shows "foldl (\<lambda>best y. if key best < key y then y else best) b xs =
     (if xs = [] then b
      else if key b < key (hd (sort_key (\<lambda>p. - key p) xs)) then hd (sort_key (\<lambda>p. - key p) xs)
      else b)"
proof (induction xs arbitrary: b)
  case Nil
  then show ?case by simp
next
  case (Cons y ys)
  show ?case
    unfolding foldl_Cons Cons.IH hd_sort_key_Cons
    by (auto simp: not_less)
qed

lemma py_max_pairs:
  fixes key :: "'a \<Rightarrow> rat"
  shows "py_max key (x # xs) = Inr (hd (sort_key (\<lambda>p. - key p) (x # xs)))"
  unfolding py_max.simps foldl_first_max hd_sort_key_Cons
  by (auto simp: not_less)

lemma map_of_distinct_pair:
  "distinct (map fst ps) \<Longrightarrow> p \<in> set ps \<Longrightarrow> map_of ps (fst p) = Some (snd p)"
  by (cases p) simp

lemma foldl_keys_pairs:
  assumes d: "distinct (map fst ps)"
  shows "set xs \<subseteq> set ps \<Longrightarrow> b \<in> set ps \<Longrightarrow>
     foldl (\<lambda>best y. if map_of ps best < map_of ps y then y else best) (fst b) (map fst xs) =
     fst (foldl (\<lambda>best y. if snd best < snd y then y else best) b xs)"
proof (induction xs arbitrary: b)
  case Nil
  then show ?case by simp
next
  case (Cons y ys)
  from Cons.prems have y: "y \<in> set ps" and ys: "set ys \<subseteq> set ps" by simp_all
  have my: "map_of ps (fst y) = Some (snd y)" by (rule map_of_distinct_pair [OF d y])
  have mb: "map_of ps (fst b) = Some (snd b)" by (rule map_of_distinct_pair [OF d Cons.prems(2)])
  show ?case
  proof (cases "snd b < snd y")
    case True
    then show ?thesis using Cons.IH [OF ys y] by (simp add: my mb)
  next
    case False
    then show ?thesis using Cons.IH [OF ys Cons.prems(2)] by (simp add: my mb)
  qed
qed

lemma top_prediction_spec_rank:
  assumes "preds \<noteq> []" and d: "distinct (map fst preds)"
  shows "top_prediction preds = Inr (fst (hd (spec_rank preds)))"
proof -
  from assms(1) obtain x xs where p: "preds = x # xs" by (cases preds) auto
  have "foldl (\<lambda>best y. if map_of preds best < map_of preds y then y else best) (fst x) (map fst xs) =
        fst (foldl (\<lambda>best y. if snd best < snd y then y else best) x xs)"
    by (rule foldl_keys_pairs [OF d]) (auto simp: p)
  moreover have "py_max snd (x # xs) = Inr (hd (sort_key (\<lambda>p. - snd p) (x # xs)))"
    by (rule py_max_pairs)
  ultimately show ?thesis
    by (simp add: top_prediction_def spec_rank_def p del: sort_key_simps)
qed

lemma hd_sort_key_index:
  fixes f :: "'a \<Rightarrow> rat"
  shows "xs \<noteq> [] \<Longrightarrow>
    \<exists>i<length xs. hd (sort_key f xs) = xs ! i \<and>
       (\<forall>j<length xs. f (xs ! i) \<le> f (xs ! j)) \<and> (\<forall>j<i. f (xs ! i) < f (xs ! j))"
proof (induction xs)
  case Nil
  then show ?case by simp
next
  case (Cons x xs)
  show ?case
  proof (cases "xs = []")
    case True
    then show ?thesis by simp
  next
    case False
    from Cons.IH [OF False] obtain i where i: "i < length xs"
      and h: "hd (sort_key f xs) = xs ! i"
      and mn: "\<forall>j<length xs. f (xs ! i) \<le> f (xs ! j)"
      and fs: "\<forall>j<i. f (xs ! i) < f (xs ! j)"
      by blast
    show ?thesis
    proof (cases "f x \<le> f (xs ! i)")
      case True
      have "\<forall>j<length (x # xs). f ((x # xs) ! 0) \<le> f ((x # xs) ! j)"
      proof (intro allI impI)
        fix j assume "j < length (x # xs)"
        then show "f ((x # xs) ! 0) \<le> f ((x # xs) ! j)"
          using True mn by (cases j) (auto intro: order_trans)
      qed
      moreover have "hd (sort_key f (x # xs)) = (x # xs) ! 0"
        using True False h by (simp add: hd_sort_key_Cons del: sort_key_simps)
      ultimately show ?thesis by (intro exI [of _ 0]) simp
    next
      case F: False
      have a: "hd (sort_key f (x # xs)) = (x # xs) ! Suc i"
        using F False h by (simp add: hd_sort_key_Cons del: sort_key_simps)
      have b: "\<forall>j<length (x # xs). f ((x # xs) ! Suc i) \<le> f ((x # xs) ! j)"
      proof (intro allI impI)
        fix j assume "j < length (x # xs)"
        then show "f ((x # xs) ! Suc i) \<le> f ((x # xs) ! j)"
          using F mn by (cases j) auto
      qed
      have c: "\<forall>j<Suc i. f ((x # xs) ! Suc i) < f ((x # xs) ! j)"
      proof (intro allI impI)
        fix j assume "j < Suc i"
        then show "f ((x # xs) ! Suc i) < f ((x # xs) ! j)"
          using F fs by (cases j) auto
      qed
      from a b c i show ?thesis by (intro exI [of _ "Suc i"]) simp
    qed
  qed
qed

lemma top_prediction_index:
  assumes "preds \<noteq> []" and "distinct (map fst preds)"
  shows "\<exists>i<length preds. top_prediction preds = Inr (fst (preds ! i)) \<and>
           (\<forall>j<length preds. snd (preds ! j) \<le> snd (preds ! i)) \<and>
           (\<forall>j<i. snd (preds ! j) < snd (preds ! i))"
  using hd_sort_key_index [OF assms(1), of "\<lambda>p. - snd p"] top_prediction_spec_rank [OF assms]
  by (auto simp: spec_rank_def)

lemma spec_rank_sorted_stable:
  "sorted (map (\<lambda>p. - snd p) (spec_rank preds)) \<and> set (spec_rank preds) = set preds \<and>
   length (spec_rank preds) = length preds \<and>
   filter (\<lambda>p. snd p = c) (spec_rank preds) = filter (\<lambda>p. snd p = c) preds"
proof -
  have "filter (\<lambda>p. - snd p = - c) (sort_key (\<lambda>p. - snd p) preds) = filter (\<lambda>p. - snd p = - c) preds"
    by (rule sort_key_stable)
  then show ?thesis by (simp add: spec_rank_def)
qed

lemma py_imports_class_names:
  "py_imports (env\<lparr>class_names_txt := ls\<rparr>) ms = py_imports env ms"
  by (induction ms) (simp_all add: py_import_def)

lemma classify_block_mock:
  assumes "''time'' \<in> set (installed env)"
  shows "classify_block env predictions w =
     (Inr (), w\<lparr>ui := ui w @
        [Info ''Loading model and processing image...'', Spinner ''Classifying...'',
         Markdown ''<div class=result-card>'', Subheader ''Classification Results'',
         Write ''Plastic Bottle'' (85 / 100), Progress (85 / 100),
         Write ''Aluminum Can'' (10 / 100), Progress (10 / 100),
         Write ''Paper'' (3 / 100), Progress (3 / 100),
         Write ''Glass'' (2 / 100), Progress (2 / 100),
         Success ''Plastic Bottle'' (85 / 100), Markdown ''</div>'']\<rparr>)"
  using assms
  by (simp add: classify_block_def py_import_def display_predictions_mock top_prediction_mock)
     (simp add: predictions_def st_def)

lemma upload_section_class_names:
  "upload_section (env\<lparr>class_names_txt := ls\<rparr>) w = upload_section env w"
  by (simp add: upload_section_def Let_def cong: option.case_cong sum.case_cong)

lemma results_section_class_names:
  "results_section (env\<lparr>class_names_txt := ls\<rparr>) p w = results_section env p w"
  by (simp add: results_section_def try_classify_def classify_block_def py_import_def Let_def)

lemma page_top_ui:
  "ui (page_top w) = ui w @
     [PageConfig ''Edge AI Recyclable Items Classifier'', Markdown ''<style> ... </style>'',
      Markdown ''<h1>Edge AI Recyclable Items Classifier</h1>'', Markdown ''---'',
      Header ''Model Information'', Markdown ''Model Information ...'', Columns]"
  by (simp add: page_top_def st_def)

lemma page_top_files: "files (page_top w) = files w"
  by (simp add: page_top_def st_def)

lemma upload_section_Some:
  assumes "upload_section env w = (Inr (Some p), w1)"
  shows "p = tmp_name env \<and> files w1 = insert p (files w) \<and>
         written (ui w1) = written (ui w) \<and> most_likely (ui w1) = most_likely (ui w) \<and>
         errors_shown (ui w1) = errors_shown (ui w)"
  using assms
  by (auto simp: upload_section_def Let_def save_jpeg_def NamedTemporaryFile_def st_def
      written_append most_likely_append errors_shown_append
      split: option.splits sum.splits if_splits)

lemma app_reaches_classification:
  assumes "reaches_classification env w"
  shows "fst (app env w) = Inr () \<and>
         written (ui (snd (app env w))) = written (ui w) @ predictions \<and>
         most_likely (ui (snd (app env w))) = most_likely (ui w) @ [(''Plastic Bottle'', 85 / 100)] \<and>
         errors_shown (ui (snd (app env w))) = errors_shown (ui w) \<and>
         files (snd (app env w)) = files w - {tmp_name env}"
proof -
  from assms have imp: "py_imports env app_imports = Inr ()" and tm: "''time'' \<in> set (installed env)"
    by (simp_all add: reaches_classification_def py_imports_ok_iff)
  from assms obtain p w1 where u: "upload_section env (page_top w) = (Inr (Some p), w1)"
    and nm: "p \<noteq> []"
    by (auto simp: reaches_classification_def truthy_def split: prod.splits sum.splits option.splits)
  from upload_section_Some [OF u]
  have p: "p = tmp_name env" and f: "files w1 = insert p (files (page_top w))"
    and wr: "written (ui w1) = written (ui (page_top w))"
    and ml: "most_likely (ui w1) = most_likely (ui (page_top w))"
    and er: "errors_shown (ui w1) = errors_shown (ui (page_top w))"
    by simp_all
  have a: "app env w =
     (Inr (), cleanup (Some p) (page_footer (try_classify env predictions
        (st (Header ''Classification Results'') w1))))"
    using nm by (simp add: app_def imp u results_section_def truthy_def)
  show ?thesis
    using nm
    by (simp add: a try_classify_def classify_block_mock [OF tm] st_def cleanup_def
        page_footer_def page_top_ui page_top_files written_append most_likely_append
        errors_shown_append wr ml er f)
       (simp add: predictions_def p [symmetric])
qed

section \<open>Ranking and display\<close>

text \<open>
  C1. For the fixed mapping of the four labels Plastic Bottle, Aluminum Can, Paper and
  Glass to 0.85, 0.10, 0.03 and 0.02, the top entry is Plastic Bottle with 0.85, the rows
  are displayed in exactly that order, and that order is the descending one (it is what
  the specification's ranking returns).
\<close>

theorem mock_ranking:
  "top_prediction predictions = Inr ''Plastic Bottle'' \<and>
   map_of predictions ''Plastic Bottle'' = Some (85 / 100) \<and>
   written (ui (snd (display_predictions predictions w))) =
     written (ui w) @ [(''Plastic Bottle'', 85 / 100), (''Aluminum Can'', 10 / 100),
                       (''Paper'', 3 / 100), (''Glass'', 2 / 100)] \<and>
   spec_rank predictions =
     [(''Plastic Bottle'', 85 / 100), (''Aluminum Can'', 10 / 100),
      (''Paper'', 3 / 100), (''Glass'', 2 / 100)]"
proof -
  have a: "map_of predictions ''Plastic Bottle'' = Some (85 / 100)"
    by (simp add: predictions_def)
  have b: "written (ui (snd (display_predictions predictions w))) =
     written (ui w) @ [(''Plastic Bottle'', 85 / 100), (''Aluminum Can'', 10 / 100),
                       (''Paper'', 3 / 100), (''Glass'', 2 / 100)]"
    by (simp add: display_predictions_mock written_append)
  have c: "spec_rank predictions =
     [(''Plastic Bottle'', 85 / 100), (''Aluminum Can'', 10 / 100),
      (''Paper'', 3 / 100), (''Glass'', 2 / 100)]"
    by (simp add: spec_rank_def predictions_def)
  from top_prediction_mock a b c show ?thesis by blast
qed

text \<open>
  C2, as stated, fails: the script sorts nothing. For the scores 0.1 for A and 0.9 for B
  the rows are displayed A, B, while the descending order is B, A.
\<close>

theorem display_order_counterexample:
  "written (ui (snd (display_predictions [(''A'', 1 / 10), (''B'', 9 / 10)] empty_world))) =
     [(''A'', 1 / 10), (''B'', 9 / 10)] \<and>
   spec_rank [(''A'', 1 / 10), (''B'', 9 / 10)] = [(''B'', 9 / 10), (''A'', 1 / 10)]"
  by (simp add: spec_rank_def st_progress_def st_def empty_world_def)

text \<open>
  C2, amended. For every non-empty mapping with confidences in [0, 1] the rows are
  displayed in the mapping's own order (the class index order), not sorted; the top entry
  is the first element of the sequence sorted by descending confidence with ties broken
  by ascending index: the key at the least index whose confidence no other exceeds. For
  the scores 0.5, 0.5, 0.0 of A, B, C the order shown is A, B, C and the top entry is A.
\<close>

theorem top_prediction_first_max:
  assumes "preds \<noteq> []" and "distinct (map fst preds)"
    and "list_all (\<lambda>p. 0 \<le> snd p \<and> snd p \<le> 1) preds"
  shows "map fst (written (ui (snd (display_predictions preds w)))) =
           map fst (written (ui w)) @ map fst preds \<and>
         top_prediction preds = Inr (fst (hd (spec_rank preds))) \<and>
         (\<exists>i<length preds. top_prediction preds = Inr (fst (preds ! i)) \<and>
            (\<forall>j<length preds. snd (preds ! j) \<le> snd (preds ! i)) \<and>
            (\<forall>j<i. snd (preds ! j) < snd (preds ! i)))"
proof -
  have "map fst (written (ui (snd (display_predictions preds w)))) =
           map fst (written (ui w)) @ map fst preds"
    using assms(3) by (simp add: display_predictions_in_range written_append written_rows)
  with top_prediction_spec_rank [OF assms(1,2)] top_prediction_index [OF assms(1,2)]
  show ?thesis by blast
qed

text \<open>The witness of C2: the scores 0.5, 0.5, 0.0 of A, B, C.\<close>

theorem top_prediction_first_max_witness:
  "[(''A'', 1 / 2), (''B'', 1 / 2), (''C'', 0 :: rat)] \<noteq> [] \<and>
   distinct (map fst [(''A'', 1 / 2), (''B'', 1 / 2), (''C'', 0 :: rat)]) \<and>
   list_all (\<lambda>p. 0 \<le> snd p \<and> snd p \<le> 1) [(''A'', 1 / 2), (''B'', 1 / 2), (''C'', 0 :: rat)] \<and>
   map fst (written (ui (snd (display_predictions [(''A'', 1 / 2), (''B'', 1 / 2), (''C'', 0)] empty_world)))) =
     [''A'', ''B'', ''C''] \<and>
   top_prediction [(''A'', 1 / 2), (''B'', 1 / 2), (''C'', 0)] = Inr ''A''"
proof -
  have h1: "[(''A'', 1 / 2), (''B'', 1 / 2), (''C'', 0 :: rat)] \<noteq> []" by simp
  have h2: "distinct (map fst [(''A'', 1 / 2), (''B'', 1 / 2), (''C'', 0 :: rat)])" by simp
  have h3: "list_all (\<lambda>p. 0 \<le> snd p \<and> snd p \<le> 1) [(''A'', 1 / 2), (''B'', 1 / 2), (''C'', 0 :: rat)]"
    by simp
  have e: "ui empty_world = []" by (simp add: empty_world_def)
  have r: "fst (hd (spec_rank [(''A'', 1 / 2), (''B'', 1 / 2), (''C'', 0 :: rat)])) = ''A''"
    by (simp add: spec_rank_def)
  from top_prediction_first_max [OF h1 h2 h3, of empty_world]
  have "map fst (written (ui (snd (display_predictions [(''A'', 1 / 2), (''B'', 1 / 2), (''C'', 0)] empty_world)))) =
          map fst (written (ui empty_world)) @ map fst [(''A'', 1 / 2), (''B'', 1 / 2), (''C'', 0 :: rat)]"
    and "top_prediction [(''A'', 1 / 2), (''B'', 1 / 2), (''C'', 0)] =
          Inr (fst (hd (spec_rank [(''A'', 1 / 2), (''B'', 1 / 2), (''C'', 0 :: rat)])))"
    by blast+
  with h1 h2 h3 show ?thesis by (simp add: e r)
qed

text \<open>
  C3, as stated, fails: the scores 0.9 and 0.9 sum to 1.8, more than the tolerance away
  from 1, and the rows show 0.9 and 0.9.
\<close>

theorem raw_scores_counterexample:
  "1 / 100 < \<bar>sum_list (map snd [(''A'', 9 / 10), (''B'', 9 / 10 :: rat)]) - 1\<bar> \<and>
   written (ui (snd (display_predictions [(''A'', 9 / 10), (''B'', 9 / 10)] empty_world))) =
     [(''A'', 9 / 10), (''B'', 9 / 10)]"
  by (simp add: st_progress_def st_def empty_world_def)

text \<open>
  C3, amended. There is no normalization pass: the rows displayed are an initial part of
  the mapping's items with the scores exactly as given (all of the items when every score
  lies in [0, 1]); the scores of the mock mapping sum to exactly 1.
\<close>

theorem displayed_scores_raw:
  "(\<exists>k. k \<le> length preds \<and>
        written (ui (snd (display_predictions preds w))) = written (ui w) @ take k preds) \<and>
   (list_all (\<lambda>p. 0 \<le> snd p \<and> snd p \<le> 1) preds \<longrightarrow>
      written (ui (snd (display_predictions preds w))) = written (ui w) @ preds) \<and>
   sum_list (map snd predictions) = 1"
proof -
  have "sum_list (map snd predictions) = 1" by (simp add: predictions_def)
  then show ?thesis
    using display_predictions_prefix [of preds w]
    by (simp add: display_predictions_in_range written_append written_rows)
qed

text \<open>The witness of C3: the scores 0.9 and 0.9.\<close>

theorem displayed_scores_raw_witness:
  "list_all (\<lambda>p. 0 \<le> snd p \<and> snd p \<le> 1) [(''A'', 9 / 10), (''B'', 9 / 10 :: rat)] \<and>
   written (ui (snd (display_predictions [(''A'', 9 / 10), (''B'', 9 / 10)] empty_world))) =
     [(''A'', 9 / 10), (''B'', 9 / 10)] \<and>
   sum_list (map snd predictions) = 1"
  using displayed_scores_raw [of "[(''A'', 9 / 10), (''B'', 9 / 10)]" empty_world]
  by (simp add: empty_world_def)

section \<open>Upload, imports and failures\<close>

text \<open>
  C5. The script keeps the uploaded image in the mode it was decoded in: a grayscale
  upload is shown and saved with its single band, an RGBA upload is shown with its four
  bands and then fails to be saved as JPEG. Only the test scripts convert to RGB
  (\<open>mode_ensure_RGB\<close>).
\<close>

theorem upload_keeps_mode:
  "upload_section (toy_env (Some [0])) empty_world =
     (Inr (Some ''/tmp/tmpabc.jpg''),
      \<lparr>ui = [Header ''Upload Image'', FileUploader ''Choose an image of a recyclable item'',
             ImageShown \<lparr>mode = ''L'', width = 1, height = 1, pixels = [[[0]]]\<rparr> ''Uploaded Image''],
       files = {''/tmp/tmpabc.jpg''}\<rparr>) \<and>
   getbands ''L'' = [''L''] \<and>
   upload_section (toy_env (Some [137])) empty_world =
     (Inl (Exn ''OSError'' ''cannot write mode RGBA as JPEG''),
      \<lparr>ui = [Header ''Upload Image'', FileUploader ''Choose an image of a recyclable item'',
             ImageShown \<lparr>mode = ''RGBA'', width = 1, height = 1, pixels = [[[137, 137, 137, 255]]]\<rparr>
               ''Uploaded Image''],
       files = {''/tmp/tmpabc.jpg''}\<rparr>) \<and>
   getbands ''RGBA'' = [''R'', ''G'', ''B'', ''A'']"
  by (simp add: run_defs getbands_def)

text \<open>
  C6. Without OpenCV the script stops at its import of cv2 (line 4) with
  ModuleNotFoundError before anything is shown, while the guarded import of the test
  script returns False and goes on.
\<close>

theorem app_aborts_without_cv2:
  "app no_cv2_env empty_world =
     (Inl (Exn ''ModuleNotFoundError'' ''No module named cv2''), empty_world) \<and>
   test_opencv_import_handling no_cv2_env = False"
  by (simp add: run_defs no_cv2_env_def test_opencv_import_handling_def)

text \<open>
  C7, as stated, fails: for an upload of no bytes the decoder's own exception leaves the
  script, unwrapped, and no error message is shown; and when the block fails at the second
  row, both rows written before the failure stay on the page.
\<close>

theorem decode_failure_counterexample:
  "fst (app (toy_env (Some [])) empty_world) =
     Inl (Exn ''UnidentifiedImageError'' ''cannot identify image file'') \<and>
   errors_shown (ui (snd (app (toy_env (Some [])) empty_world))) = [] \<and>
   written (ui (try_classify (toy_env None) [(''A'', 1 / 2), (''B'', 2)] empty_world)) =
     [(''A'', 1 / 2), (''B'', 2)] \<and>
   errors_shown (ui (try_classify (toy_env None) [(''A'', 1 / 2), (''B'', 2)] empty_world)) =
     [''Error during classification: Progress Value has invalid value [0.0, 1.0]'']"
  by (simp add: run_defs)

text \<open>
  C7, amended. A failure inside the classification block is caught: the handler shows
  "Error during classification: " followed by the message of the cause, then a hint; it
  does not raise, does not retry, and leaves what the block had displayed. A failure of
  the decoder, which runs before the block, leaves the script as it is and adds no error
  message to the page.
\<close>

theorem classification_failure_handled:
  "(classify_block env preds w = (Inl e, w') \<longrightarrow>
      try_classify env preds w =
        st (Info ''Make sure you have a trained TFLite model in the correct location.'')
          (st (Error (''Error during classification: '' @ msg e)) w')) \<and>
   (py_imports env2 app_imports = Inr () \<and> uploaded_file env2 = Some bs \<and>
    Image_open env2 bs = Inl e2 \<longrightarrow>
      fst (app env2 w2) = Inl e2 \<and>
      errors_shown (ui (snd (app env2 w2))) = errors_shown (ui w2))"
  by (simp add: try_classify_def app_def upload_section_def st_def page_top_def
      errors_shown_append)

text \<open>The witness of C7: an empty mapping (max raises ValueError), and an upload of no
  bytes.\<close>

theorem classification_failure_handled_witness:
  "classify_block (toy_env None) [] empty_world =
     (Inl (Exn ''ValueError'' ''max() arg is an empty sequence''),
      \<lparr>ui = [Info ''Loading model and processing image...'', Spinner ''Classifying...'',
             Markdown ''<div class=result-card>'', Subheader ''Classification Results''],
       files = {}\<rparr>) \<and>
   try_classify (toy_env None) [] empty_world =
     \<lparr>ui = [Info ''Loading model and processing image...'', Spinner ''Classifying...'',
            Markdown ''<div class=result-card>'', Subheader ''Classification Results'',
            Error ''Error during classification: max() arg is an empty sequence'',
            Info ''Make sure you have a trained TFLite model in the correct location.''],
      files = {}\<rparr> \<and>
   py_imports (toy_env (Some [])) app_imports = Inr () \<and>
   uploaded_file (toy_env (Some [])) = Some [] \<and>
   Image_open (toy_env (Some [])) [] =
     Inl (Exn ''UnidentifiedImageError'' ''cannot identify image file'') \<and>
   fst (app (toy_env (Some [])) empty_world) =
     Inl (Exn ''UnidentifiedImageError'' ''cannot identify image file'') \<and>
   errors_shown (ui (snd (app (toy_env (Some [])) empty_world))) = []"
proof -
  have b: "classify_block (toy_env None) [] empty_world =
     (Inl (Exn ''ValueError'' ''max() arg is an empty sequence''),
      \<lparr>ui = [Info ''Loading model and processing image...'', Spinner ''Classifying...'',
             Markdown ''<div class=result-card>'', Subheader ''Classification Results''],
       files = {}\<rparr>)"
    by (simp add: run_defs)
  have i: "py_imports (toy_env (Some [])) app_imports = Inr ()"
    by (simp add: run_defs)
  have u: "uploaded_file (toy_env (Some [])) = Some []"
    by (simp add: toy_env_def)
  have d: "Image_open (toy_env (Some [])) [] =
     Inl (Exn ''UnidentifiedImageError'' ''cannot identify image file'')"
    by (simp add: toy_env_def toy_open_def)
  from classification_failure_handled
    [of "toy_env None" "[]" empty_world "Exn ''ValueError'' ''max() arg is an empty sequence''"
      "\<lparr>ui = [Info ''Loading model and processing image...'', Spinner ''Classifying...'',
             Markdown ''<div class=result-card>'', Subheader ''Classification Results''],
       files = {}\<rparr>"
      "toy_env (Some [])" "[]" "Exn ''UnidentifiedImageError'' ''cannot identify image file''"
      empty_world]
    b i u d
  show ?thesis by (simp add: st_def empty_world_def)
qed

text \<open>
  C8, as stated, fails: with a label file of 3 entries and the 4 scores of the mock
  mapping the run completes, shows all 4 rows and no error.
\<close>

theorem label_mismatch_counterexample:
  "length (class_names_txt (toy_env (Some [1]))) = 3 \<and>
   length predictions = 4 \<and>
   fst (app (toy_env (Some [1])) empty_world) = Inr () \<and>
   written (ui (snd (app (toy_env (Some [1])) empty_world))) =
     [(''Plastic Bottle'', 85 / 100), (''Aluminum Can'', 10 / 100),
      (''Paper'', 3 / 100), (''Glass'', 2 / 100)] \<and>
   errors_shown (ui (snd (app (toy_env (Some [1])) empty_world))) = []"
  by (simp add: run_defs)

text \<open>
  C8, amended. The script never reads the label file: a run is the same whatever
  \<^verbatim>\<open>class_names.txt\<close> holds. The labels are the keys of the predictions mapping, so
  there are as many labels as scores.
\<close>

theorem label_file_never_read:
  "app (env\<lparr>class_names_txt := ls\<rparr>) w = app env w \<and>
   map fst predictions = [''Plastic Bottle'', ''Aluminum Can'', ''Paper'', ''Glass''] \<and>
   length (map snd predictions) = length (map fst predictions)"
proof -
  have "app (env\<lparr>class_names_txt := ls\<rparr>) w = app env w"
    by (simp add: app_def py_imports_class_names upload_section_class_names
        results_section_class_names cong: sum.case_cong prod.case_cong)
  moreover have "map fst predictions = [''Plastic Bottle'', ''Aluminum Can'', ''Paper'', ''Glass'']"
    by (simp add: predictions_def)
  moreover have "length (map snd predictions) = length (map fst predictions)"
    by simp
  ultimately show ?thesis by blast
qed

text \<open>
  C9. When saving the upload fails (an RGBA image as JPEG), the script ends with OSError
  and the temporary file stays on disk; a run that completes removes it.
\<close>

theorem tmp_file_left_behind:
  "fst (app (toy_env (Some [137])) empty_world) =
     Inl (Exn ''OSError'' ''cannot write mode RGBA as JPEG'') \<and>
   files (snd (app (toy_env (Some [137])) empty_world)) = {''/tmp/tmpabc.jpg''} \<and>
   fst (app (toy_env (Some [1])) empty_world) = Inr () \<and>
   files (snd (app (toy_env (Some [1])) empty_world)) = {}"
  by (simp add: run_defs)

section \<open>Independence of the upload\<close>

text \<open>
  C10, as stated, fails: of two accepted uploads, an RGB image gets the four rows and the
  top entry, a truncated JPEG gets neither: it opens, and the run ends at
  \<^verbatim>\<open>st.image\<close> (line 83), where its data are decoded.
\<close>

theorem upload_dependence_counterexample:
  "uploaded_file (toy_env (Some [1])) = Some [1] \<and>
   uploaded_file (toy_env (Some [255])) = Some [255] \<and>
   written (ui (snd (app (toy_env (Some [1])) empty_world))) =
     [(''Plastic Bottle'', 85 / 100), (''Aluminum Can'', 10 / 100),
      (''Paper'', 3 / 100), (''Glass'', 2 / 100)] \<and>
   most_likely (ui (snd (app (toy_env (Some [1])) empty_world))) = [(''Plastic Bottle'', 85 / 100)] \<and>
   fst (app (toy_env (Some [255])) empty_world) = Inl (Exn ''OSError'' ''image file is truncated'') \<and>
   written (ui (snd (app (toy_env (Some [255])) empty_world))) = [] \<and>
   most_likely (ui (snd (app (toy_env (Some [255])) empty_world))) = []"
  by (simp add: run_defs)

text \<open>
  C10, amended. For every two runs that reach the classification, the rows and the top
  entry displayed are the same: the fixed list of Plastic Bottle 0.85, Aluminum Can 0.10,
  Paper 0.03 and Glass 0.02 with the top entry Plastic Bottle, whatever the bytes, the
  decoded image and the rest of the environment.
\<close>

theorem results_independent_of_upload:
  assumes "reaches_classification env1 w" and "reaches_classification env2 w"
  shows "written (ui (snd (app env1 w))) = written (ui (snd (app env2 w))) \<and>
         most_likely (ui (snd (app env1 w))) = most_likely (ui (snd (app env2 w))) \<and>
         written (ui (snd (app env1 w))) = written (ui w) @
           [(''Plastic Bottle'', 85 / 100), (''Aluminum Can'', 10 / 100),
            (''Paper'', 3 / 100), (''Glass'', 2 / 100)] \<and>
         most_likely (ui (snd (app env1 w))) = most_likely (ui w) @ [(''Plastic Bottle'', 85 / 100)]"
  using app_reaches_classification [OF assms(1)] app_reaches_classification [OF assms(2)]
  by (simp add: predictions_def)

text \<open>The witness of C10: an RGB and a grayscale upload.\<close>

theorem results_independent_of_upload_witness:
  "reaches_classification (toy_env (Some [1])) empty_world \<and>
   reaches_classification (toy_env (Some [0])) empty_world \<and>
   written (ui (snd (app (toy_env (Some [1])) empty_world))) =
     written (ui (snd (app (toy_env (Some [0])) empty_world))) \<and>
   most_likely (ui (snd (app (toy_env (Some [1])) empty_world))) =
     most_likely (ui (snd (app (toy_env (Some [0])) empty_world))) \<and>
   written (ui (snd (app (toy_env (Some [1])) empty_world))) =
     [(''Plastic Bottle'', 85 / 100), (''Aluminum Can'', 10 / 100),
      (''Paper'', 3 / 100), (''Glass'', 2 / 100)] \<and>
   most_likely (ui (snd (app (toy_env (Some [1])) empty_world))) = [(''Plastic Bottle'', 85 / 100)]"
proof -
  have a: "reaches_classification (toy_env (Some [1])) empty_world"
    by (simp add: reaches_classification_def run_defs)
  have b: "reaches_classification (toy_env (Some [0])) empty_world"
    by (simp add: reaches_classification_def run_defs)
  have e: "ui empty_world = []" by (simp add: empty_world_def)
  from results_independent_of_upload [OF a b] a b
  show ?thesis by (auto simp: e)
qed

section \<open>Further properties of a run\<close>

text \<open>
  In every run that reaches the classification with a fresh temporary name, the script
  completes and leaves the files as they were: the temporary copy is removed by the last
  statement.
\<close>

theorem tmp_file_removed_when_handled:
  assumes "reaches_classification env w" and "tmp_name env \<notin> files w"
  shows "fst (app env w) = Inr () \<and> files (snd (app env w)) = files w"
  using app_reaches_classification [OF assms(1)] assms(2) by simp

text \<open>At a concrete run: an RGB upload.\<close>

theorem tmp_file_removed_when_handled_witness:
  "reaches_classification (toy_env (Some [1])) empty_world \<and>
   tmp_name (toy_env (Some [1])) \<notin> files empty_world \<and>
   fst (app (toy_env (Some [1])) empty_world) = Inr () \<and>
   files (snd (app (toy_env (Some [1])) empty_world)) = {}"
proof -
  have a: "reaches_classification (toy_env (Some [1])) empty_world"
    by (simp add: reaches_classification_def run_defs)
  have b: "tmp_name (toy_env (Some [1])) \<notin> files empty_world"
    by (simp add: empty_world_def)
  have e: "files empty_world = {}" by (simp add: empty_world_def)
  from tmp_file_removed_when_handled [OF a b] a b show ?thesis by (simp add: e)
qed

text \<open>
  The guarded import of the test script never raises: it returns whether cv2 is
  installed.
\<close>

theorem guarded_import_returns_availability:
  "test_opencv_import_handling env = (''cv2'' \<in> set (installed env))"
  by (simp add: test_opencv_import_handling_def py_import_def)

text \<open>
  With no file uploaded and all imports of lines 1-7 available, the run completes,
  shows the two hints and no classification row, and touches no file.
\<close>

theorem run_without_upload:
  assumes "py_imports env app_imports = Inr ()" and "uploaded_file env = None"
  shows "fst (app env w) = Inr () \<and> files (snd (app env w)) = files w \<and>
         written (ui (snd (app env w))) = written (ui w) \<and>
         most_likely (ui (snd (app env w))) = most_likely (ui w) \<and>
         errors_shown (ui (snd (app env w))) = errors_shown (ui w)"
  using assms
  by (simp add: app_def upload_section_def results_section_def truthy_def cleanup_def
      page_footer_def page_top_def st_def written_append most_likely_append errors_shown_append)

text \<open>At a concrete run: the toy environment with no upload.\<close>

theorem run_without_upload_witness:
  "py_imports (toy_env None) app_imports = Inr () \<and> uploaded_file (toy_env None) = None \<and>
   fst (app (toy_env None) empty_world) = Inr () \<and>
   files (snd (app (toy_env None) empty_world)) = {} \<and>
   written (ui (snd (app (toy_env None) empty_world))) = []"
proof -
  have a: "py_imports (toy_env None) app_imports = Inr ()"
    by (simp add: toy_env_def all_modules_def app_imports_def py_import_def)
  have b: "uploaded_file (toy_env None) = None" by (simp add: toy_env_def)
  have e: "files empty_world = {}" "ui empty_world = []" by (simp_all add: empty_world_def)
  from run_without_upload [OF a b, of empty_world] a b show ?thesis by (simp add: e)
qed

end
